theory Spec2Isabelle
  imports Complex_Main
begin

section \<open>Python strings\<close>

text \<open>
  Strings are \<open>char list\<close>s, one \<open>char\<close> per ASCII character. The helpers below
  are the \<open>str\<close> methods that \<open>main.py\<close> calls, on ASCII text: \<open>strip\<close>,
  \<open>replace(c, '')\<close> for a one-character \<open>c\<close>, \<open>isdigit\<close>, \<open>lower\<close>,
  \<open>in\<close> (substring), \<open>startswith\<close>, \<open>endswith\<close>, \<open>find\<close> and \<open>rfind\<close>.
\<close>

definition is_space :: "char \<Rightarrow> bool" where
  \<comment> \<open>The ASCII characters Python counts as whitespace: 0x09-0x0D, 0x1C-0x1F and 0x20.\<close>
  "is_space c = (let n = (of_char c :: nat) in (9 \<le> n \<and> n \<le> 13) \<or> (28 \<le> n \<and> n \<le> 32))"

definition is_digit :: "char \<Rightarrow> bool" where
  "is_digit c = (let n = (of_char c :: nat) in 48 \<le> n \<and> n \<le> 57)"

definition lstrip :: "string \<Rightarrow> string" where
  "lstrip s = dropWhile is_space s"

definition rstrip :: "string \<Rightarrow> string" where
  "rstrip s = rev (dropWhile is_space (rev s))"

definition strip :: "string \<Rightarrow> string" where
  "strip s = rstrip (lstrip s)"

definition remove_char :: "char \<Rightarrow> string \<Rightarrow> string" where
  \<comment> \<open>\<open>s.replace(c, '')\<close>\<close>
  "remove_char c s = filter (\<lambda>d. d \<noteq> c) s"

definition isdigit :: "string \<Rightarrow> bool" where
  \<comment> \<open>\<open>s.isdigit()\<close>: at least one character, and every character a digit.\<close>
  "isdigit s = (s \<noteq> [] \<and> list_all is_digit s)"

definition lower_char :: "char \<Rightarrow> char" where
  "lower_char c = (let n = (of_char c :: nat) in if 65 \<le> n \<and> n \<le> 90 then char_of (n + 32) else c)"

definition lower :: "string \<Rightarrow> string" where
  "lower s = map lower_char s"

definition startswith :: "string \<Rightarrow> string \<Rightarrow> bool" where
  "startswith s p = (take (length p) s = p)"

definition endswith :: "string \<Rightarrow> string \<Rightarrow> bool" where
  "endswith s p = (length p \<le> length s \<and> drop (length s - length p) s = p)"

fun find_from :: "nat \<Rightarrow> string \<Rightarrow> string \<Rightarrow> nat option" where
  "find_from i p [] = (if p = [] then Some i else None)"
| "find_from i p (c # cs) = (if startswith (c # cs) p then Some i else find_from (Suc i) p cs)"

definition find_str :: "string \<Rightarrow> string \<Rightarrow> nat option" where
  \<comment> \<open>\<open>s.find(p)\<close>: the least index where \<open>p\<close> starts, \<open>None\<close> for Python's \<open>-1\<close>.\<close>
  "find_str s p = find_from 0 p s"

definition contains :: "string \<Rightarrow> string \<Rightarrow> bool" where
  \<comment> \<open>\<open>p in s\<close>\<close>
  "contains s p = (find_str s p \<noteq> None)"

fun rfind_char_from :: "nat \<Rightarrow> char \<Rightarrow> string \<Rightarrow> nat option" where
  "rfind_char_from i c [] = None"
| "rfind_char_from i c (d # ds) =
     (case rfind_char_from (Suc i) c ds of
        Some j \<Rightarrow> Some j
      | None \<Rightarrow> if d = c then Some i else None)"

definition rfind_char :: "string \<Rightarrow> char \<Rightarrow> nat option" where
  \<comment> \<open>\<open>s.rfind(c)\<close> for a one-character \<open>c\<close>: the greatest index, \<open>None\<close> for \<open>-1\<close>.\<close>
  "rfind_char s c = rfind_char_from 0 c s"

section \<open>Python numbers\<close>

text \<open>
  A Python \<open>float\<close> is an IEEE double. Here it is an exact rational, or one of the
  two infinities, or not-a-number: rounding and overflow are left out, so the model
  agrees with Python wherever the doubles involved are exact (small integers, and the
  comparisons of short lengths against the thresholds 0.8 and 0.3 below).
\<close>

datatype pyfloat = Fin rat | PosInf | NegInf | NaN

fun digitpart_tail :: "string \<Rightarrow> string \<times> string" where
  "digitpart_tail [] = ([], [])"
| "digitpart_tail (c # cs) =
     (if is_digit c then (let (ds, r) = digitpart_tail cs in (c # ds, r))
      else if c = CHR ''_'' then
        (case cs of
           [] \<Rightarrow> ([], c # cs)
         | d # r \<Rightarrow>
             if is_digit d then (let (ds, r') = digitpart_tail r in (d # ds, r'))
             else ([], c # cs))
      else ([], c # cs))"

definition digitpart :: "string \<Rightarrow> (string \<times> string) option" where
  \<comment> \<open>The grammar's \<open>digitpart ::= digit (["_"] digit)*\<close>: the digits read (underscores
      dropped) and the rest of the text, or \<open>None\<close> when the text starts with no digit.\<close>
  "digitpart s =
     (case s of
        [] \<Rightarrow> None
      | c # cs \<Rightarrow>
          if is_digit c then (let (ds, r) = digitpart_tail cs in Some (c # ds, r)) else None)"

definition digits_val :: "string \<Rightarrow> nat" where
  "digits_val ds = foldl (\<lambda>n c. 10 * n + (of_char c - 48)) 0 ds"

definition split_sign :: "string \<Rightarrow> bool \<times> string" where
  \<comment> \<open>An optional sign: whether it is a minus, and the text after it.\<close>
  "split_sign s =
     (case s of
        [] \<Rightarrow> (False, [])
      | c # cs \<Rightarrow>
          if c = CHR ''-'' then (True, cs) else if c = CHR ''+'' then (False, cs) else (False, s))"

definition number :: "string \<Rightarrow> (string \<times> string \<times> string) option" where
  \<comment> \<open>\<open>number ::= [digitpart] "." digitpart | digitpart ["."]\<close>: the integer digits, the
      fraction digits and the rest of the text.\<close>
  "number s =
     (case digitpart s of
        Some (ip, r) \<Rightarrow>
          (case r of
             [] \<Rightarrow> Some (ip, [], [])
           | c # r' \<Rightarrow>
               if c = CHR ''.'' then
                 (case digitpart r' of
                    Some (fp, r'') \<Rightarrow> Some (ip, fp, r'')
                  | None \<Rightarrow> Some (ip, [], r'))
               else Some (ip, [], r))
      | None \<Rightarrow>
          (case s of
             [] \<Rightarrow> None
           | c # r' \<Rightarrow>
               if c = CHR ''.'' then
                 (case digitpart r' of
                    Some (fp, r'') \<Rightarrow> Some ([], fp, r'')
                  | None \<Rightarrow> None)
               else None))"

definition exponent :: "string \<Rightarrow> int option" where
  \<comment> \<open>\<open>[("e" | "E") [sign] digitpart]\<close>, to the end of the text.\<close>
  "exponent r =
     (case r of
        [] \<Rightarrow> Some 0
      | c # r' \<Rightarrow>
          if c = CHR ''e'' \<or> c = CHR ''E'' then
            (let (neg, r'') = split_sign r' in
             case digitpart r'' of
               Some (ds, []) \<Rightarrow> Some (if neg then - int (digits_val ds) else int (digits_val ds))
             | Some (ds, x # xs) \<Rightarrow> None
             | None \<Rightarrow> None)
          else None)"

definition scale10 :: "rat \<Rightarrow> int \<Rightarrow> rat" where
  "scale10 m e = (if 0 \<le> e then m * 10 ^ nat e else m / 10 ^ nat (- e))"

definition py_float :: "string \<Rightarrow> pyfloat option" where
  \<comment> \<open>\<open>float(s)\<close> for a string: surrounding whitespace dropped, an optional sign, then
      \<open>inf\<close>, \<open>infinity\<close> or \<open>nan\<close> in any case, or a decimal number with an optional
      exponent. \<open>None\<close> stands for the \<open>ValueError\<close> anything else raises; every
      caller catches it.\<close>
  "py_float s =
     (let (neg, body) = split_sign (strip s) in
      if lower body = ''inf'' \<or> lower body = ''infinity'' then Some (if neg then NegInf else PosInf)
      else if lower body = ''nan'' then Some NaN
      else
        (case number body of
           None \<Rightarrow> None
         | Some (ip, fp, r) \<Rightarrow>
             (case exponent r of
                None \<Rightarrow> None
              | Some e \<Rightarrow>
                  (let m = scale10 (of_nat (digits_val (ip @ fp))) (e - int (length fp))
                   in Some (Fin (if neg then - m else m))))))"

fun str_nat :: "nat \<Rightarrow> string" where
  "str_nat n = (if n < 10 then [char_of (48 + n)] else str_nat (n div 10) @ [char_of (48 + n mod 10)])"

definition str_int :: "int \<Rightarrow> string" where
  "str_int i = (if i < 0 then CHR ''-'' # str_nat (nat (- i)) else str_nat (nat i))"

section \<open>Python values\<close>

text \<open>
  The values a cell of a JSON table holds once decoded: \<open>None\<close>, a \<open>bool\<close>, an
  \<open>int\<close>, a \<open>float\<close> or a \<open>str\<close>. \<open>str\<close> of a float is Python's shortest
  round-trip text; that routine is not part of this program, so \<open>py_str\<close> takes it as
  the parameter \<open>frepr\<close>, and every result below holds for any such routine.
\<close>

datatype pyval = PNone | PBool bool | PInt int | PFloat pyfloat | PStr string

fun py_str :: "(pyfloat \<Rightarrow> string) \<Rightarrow> pyval \<Rightarrow> string" where
  "py_str frepr PNone = ''None''"
| "py_str frepr (PBool b) = (if b then ''True'' else ''False'')"
| "py_str frepr (PInt i) = str_int i"
| "py_str frepr (PFloat f) = frepr f"
| "py_str frepr (PStr s) = s"

fun truthy :: "pyval \<Rightarrow> bool" where
  "truthy PNone = False"
| "truthy (PBool b) = b"
| "truthy (PInt i) = (i \<noteq> 0)"
| "truthy (PFloat f) = (f \<noteq> Fin 0)"
| "truthy (PStr s) = (s \<noteq> [])"

subsection \<open>Exceptions\<close>

text \<open>
  The exceptions the program can raise past a function's own handlers. \<open>KeyError\<close>
  carries the missing key, \<open>AttributeError\<close> and \<open>OtherError\<close> the text \<open>str(e)\<close>
  gives, \<open>HTTPException\<close> its status code and detail.
\<close>

datatype py_error =
    ZeroDivisionError
  | KeyError string
  | AttributeError string
  | HTTPException nat string
  | OtherError string

definition truediv :: "nat \<Rightarrow> nat \<Rightarrow> py_error + rat" where
  \<comment> \<open>\<open>a / b\<close> on two lengths: \<open>ZeroDivisionError\<close> when \<open>b\<close> is 0.\<close>
  "truediv a b = (if b = 0 then Inl ZeroDivisionError else Inr (of_nat a / of_nat b))"

section \<open>Type Inference\<close>

text \<open>
  \<open>infer_column_type\<close> (main.py, lines 55-89). The bare \<open>try ... except: pass\<close> around
  the numeric check is the \<open>case\<close> on \<open>py_float\<close>: when \<open>float\<close> of the first
  sample raises, the numeric check is skipped.
\<close>

definition date_patterns :: "string list" where
  "date_patterns = [''-'', ''/'', ''2020'', ''2021'', ''2022'', ''2023'', ''2024'', ''2025'']"

definition numeric_count :: "string list \<Rightarrow> nat" where
  "numeric_count str_values =
     length (filter (\<lambda>v. isdigit (remove_char CHR ''-'' (remove_char CHR ''.'' (remove_char CHR '','' v))))
               str_values)"

definition numeric_rule :: "string \<Rightarrow> string list \<Rightarrow> bool" where
  \<comment> \<open>Lines 67-74: \<open>float\<close> of the first sample must not raise, then more than 80% of
      the samples must be digits once commas, points and minus signs are removed.\<close>
  "numeric_rule sample str_values =
     (case py_float (remove_char CHR '','' sample) of
        None \<Rightarrow> False
      | Some f \<Rightarrow> of_nat (numeric_count str_values) > (of_nat (length str_values) :: rat) * (8 / 10))"

definition date_rule :: "string \<Rightarrow> bool" where
  "date_rule sample = (list_ex (\<lambda>p. contains sample p) date_patterns \<and> length sample \<ge> 8)"

definition boolean_rule :: "string list \<Rightarrow> bool" where
  "boolean_rule str_values =
     list_all (\<lambda>v. v \<in> set [''true'', ''false'', ''yes'', ''no'', ''0'', ''1'']) (map lower str_values)"

definition sample_rules :: "string list \<Rightarrow> string option" where
  \<comment> \<open>The body of \<open>if str_values:\<close> (lines 64-83): the tag it returns, or \<open>None\<close> when it
      falls through to the cardinality rule.\<close>
  "sample_rules str_values =
     (case str_values of
        [] \<Rightarrow> None
      | sample # rest \<Rightarrow>
          if numeric_rule sample str_values then Some ''numeric''
          else if date_rule sample then Some ''date''
          else if boolean_rule str_values then Some ''boolean''
          else None)"

definition infer_column_type :: "(pyfloat \<Rightarrow> string) \<Rightarrow> pyval list \<Rightarrow> py_error + string" where
  "infer_column_type frepr vals =
     (if vals = [] then Inr ''unknown''
      else
        (let str_values = map (py_str frepr) (filter (\<lambda>v. v \<noteq> PNone) vals) in
         case sample_rules str_values of
           Some tag \<Rightarrow> Inr tag
         | None \<Rightarrow>
             (case truediv (length (remdups str_values)) (max (length str_values) 1) of
                Inl e \<Rightarrow> Inl e
              | Inr unique_ratio \<Rightarrow> if unique_ratio < 3 / 10 then Inr ''category'' else Inr ''string'')))"

section \<open>JSON Extraction\<close>

text \<open>
  \<open>clean_llm_json\<close> (main.py, lines 302-357). \<open>re.sub(r'</?s>', '', content)\<close> deletes,
  in one pass from the left, every \<open><s>\<close> and \<open></s>\<close>. The search for
  \<open>\[OUT\](.*?)\[/OUT\]\<close> with \<open>re.DOTALL\<close> matches at the first \<open>[OUT]\<close> and ends
  at the first \<open>[/OUT]\<close> after it; when no \<open>[/OUT]\<close> follows the first \<open>[OUT]\<close>
  none follows a later one, and there is no match.
\<close>

fun remove_s_tags :: "string \<Rightarrow> string" where
  "remove_s_tags [] = []"
| "remove_s_tags (c # cs) =
     (if startswith (c # cs) ''</s>'' then remove_s_tags (drop 3 cs)
      else if startswith (c # cs) ''<s>'' then remove_s_tags (drop 2 cs)
      else c # remove_s_tags cs)"

definition search_out :: "string \<Rightarrow> string option" where
  \<comment> \<open>Group 1 of the first match of \<open>\[OUT\](.*?)\[/OUT\]\<close>, or \<open>None\<close>.\<close>
  "search_out content =
     (case find_str content ''[OUT]'' of
        None \<Rightarrow> None
      | Some i \<Rightarrow>
          (let rest = drop (i + 5) content in
           case find_str rest ''[/OUT]'' of
             None \<Rightarrow> None
           | Some j \<Rightarrow> Some (take j rest)))"

definition unwrap_out :: "string \<Rightarrow> string" where
  \<comment> \<open>Lines 316-319.\<close>
  "unwrap_out content =
     (if contains content ''[OUT]'' \<and> contains content ''[/OUT]'' then
        (case search_out content of
           Some g \<Rightarrow> strip g
         | None \<Rightarrow> content)
      else content)"

definition remove_fences :: "string \<Rightarrow> string" where
  \<comment> \<open>Lines 323-328.\<close>
  "remove_fences content =
     (let content1 =
            (if startswith content ''```json'' then drop 7 content
             else if startswith content ''```'' then drop 3 content
             else content)
      in if endswith content1 ''```'' then take (length content1 - 3) content1 else content1)"

definition strip_artifacts :: "string \<Rightarrow> string" where
  \<comment> \<open>Lines 310-330: the text in which the brackets are then looked for.\<close>
  "strip_artifacts content =
     strip (remove_fences (strip (unwrap_out (remove_s_tags (strip content)))))"

definition start_index :: "string \<Rightarrow> nat option" where
  \<comment> \<open>Lines 334-346: the first \<open>{\<close> or \<open>[\<close>, whichever is earlier; \<open>None\<close> when
      both \<open>find\<close>s give \<open>-1\<close>.\<close>
  "start_index content =
     (case find_str content ''{'' of
        None \<Rightarrow> find_str content ''[''
      | Some start_obj \<Rightarrow>
          (case find_str content ''['' of
             None \<Rightarrow> Some start_obj
           | Some start_arr \<Rightarrow> Some (min start_obj start_arr)))"

definition end_index :: "string \<Rightarrow> nat \<Rightarrow> nat option" where
  \<comment> \<open>Lines 349-352: the last closing bracket of the kind that opens at \<open>start_idx\<close>.\<close>
  "end_index content start_idx =
     (if content ! start_idx = CHR ''{'' then rfind_char content CHR ''}''
      else rfind_char content CHR '']'')"

definition bracket_span :: "string \<Rightarrow> string" where
  \<comment> \<open>Lines 334-357, on the text that \<open>strip_artifacts\<close> left.\<close>
  "bracket_span content =
     (case start_index content of
        None \<Rightarrow> ''{}''
      | Some start_idx \<Rightarrow>
          (case end_index content start_idx of
             None \<Rightarrow> strip content
           | Some end_idx \<Rightarrow>
               if end_idx > start_idx
               then strip (take (end_idx + 1 - start_idx) (drop start_idx content))
               else strip content))"

definition clean_llm_json :: "string option \<Rightarrow> string" where
  \<comment> \<open>The argument is \<open>None\<close> or a string; \<open>not content\<close> holds for \<open>None\<close> and for \<open>""\<close>.\<close>
  "clean_llm_json content =
     (case content of
        None \<Rightarrow> ''{}''
      | Some c \<Rightarrow> if c = [] then ''{}'' else bracket_span (strip_artifacts c))"

section \<open>Schema profiles and chart candidates\<close>

text \<open>
  The dictionaries the pipeline passes around, as records. A \<open>ColumnProfile\<close> is
  \<open>{"name", "type", "samples", "stats"?}\<close>; a \<open>SchemaProfile\<close> is
  \<open>{"columns", "row_count", "column_names", "summary"}\<close>; a chart candidate is
  \<open>{"id", "name", "reason", "encoding"}\<close>, its encoding a dictionary from a role
  (\<open>x\<close>, \<open>y\<close>, \<open>color\<close>) to a value, kept as an association list.
\<close>

record stats =
  stat_min :: pyfloat
  stat_max :: pyfloat
  sample_avg :: pyfloat

record column_profile =
  col_name :: string
  col_type :: string
  samples :: "pyval list"
  col_stats :: "stats option"

record schema_profile =
  columns :: "column_profile list"
  row_count :: int
  column_names :: "string list"
  summary :: string

record candidate =
  cand_id :: int
  cand_name :: string
  reason :: string
  encoding :: "(string \<times> pyval) list"

record suggestion =
  user_prompt :: string
  chosen_charts :: "candidate list"

section \<open>Schema Profiler\<close>

text \<open>
  \<open>build_schema_profile\<close> (main.py, lines 91-169). A column descriptor is a dictionary
  read through \<open>col.get("column_name") or col.get("name") or str(col)\<close> and
  \<open>col.get("data_type") or col.get("type") or ""\<close>: the record holds the four keys
  (\<open>None\<close> when absent) and \<open>cd_text\<close>, the text \<open>str(col)\<close> gives. A sample row is a
  dictionary from column names to values, or something else (\<open>RowOther\<close>, with the name
  of its Python type), which \<open>isinstance(row, dict)\<close> skips.
\<close>

record column_data =
  cd_column_name :: "string option"
  cd_name :: "string option"
  cd_data_type :: "string option"
  cd_type :: "string option"
  cd_text :: string

datatype row = RowDict "(string \<times> pyval) list" | RowOther string




















section \<open>Chart Candidate Generator\<close>

subsection \<open>The fallback path\<close>

text \<open>\<open>ChartSuggester._generate_fallback_suggestions\<close> (main.py, lines 505-587).\<close>

definition generic_charts :: "candidate list" where
  \<comment> \<open>Lines 517-522.\<close>
  "generic_charts =
     [\<lparr>cand_id = 1, cand_name = ''bar_chart'', reason = ''Default comparison chart'', encoding = []\<rparr>,
      \<lparr>cand_id = 9, cand_name = ''line_chart'', reason = ''Default trend chart'', encoding = []\<rparr>,
      \<lparr>cand_id = 6, cand_name = ''pie_chart'', reason = ''Default distribution chart'', encoding = []\<rparr>,
      \<lparr>cand_id = 10, cand_name = ''big_number'', reason = ''Default KPI chart'', encoding = []\<rparr>]"

definition names_of_type :: "string list \<Rightarrow> column_profile list \<Rightarrow> string list" where
  \<comment> \<open>\<open>[c["name"] for c in columns if c.get("type") in tys]\<close>\<close>
  "names_of_type tys cols = map col_name (filter (\<lambda>c. col_type c \<in> set tys) cols)"

definition rule_suggestions :: "column_profile list \<Rightarrow> candidate list" where
  \<comment> \<open>Lines 527-580: the six rules, in order, before the truncation to four.\<close>
  "rule_suggestions cols =
     (let date_cols = names_of_type [''date''] cols;
          numeric_cols = names_of_type [''numeric''] cols;
          category_cols = names_of_type [''category'', ''string''] cols
      in
        (if date_cols \<noteq> [] \<and> numeric_cols \<noteq> [] then
           [\<lparr>cand_id = 9, cand_name = ''line_chart'',
             reason = ''Time trend: '' @ hd date_cols @ '' vs '' @ hd numeric_cols,
             encoding = [(''x'', PStr (hd date_cols)), (''y'', PStr (hd numeric_cols))]\<rparr>]
         else [])
      @ (if category_cols \<noteq> [] \<and> numeric_cols \<noteq> [] then
           [\<lparr>cand_id = 1, cand_name = ''bar_chart'',
             reason = ''Comparison: '' @ hd category_cols @ '' vs '' @ hd numeric_cols,
             encoding = [(''x'', PStr (hd category_cols)), (''y'', PStr (hd numeric_cols))]\<rparr>]
         else [])
      @ (if numeric_cols \<noteq> [] then
           [\<lparr>cand_id = 4, cand_name = ''histogram'',
             reason = ''Distribution of '' @ hd numeric_cols,
             encoding = [(''x'', PStr (hd numeric_cols))]\<rparr>]
         else [])
      @ (if category_cols \<noteq> [] \<and> numeric_cols \<noteq> [] then
           [\<lparr>cand_id = 6, cand_name = ''pie_chart'',
             reason = ''Share by '' @ hd category_cols,
             encoding = [(''x'', PStr (hd category_cols)), (''y'', PStr (hd numeric_cols))]\<rparr>]
         else [])
      @ (if length numeric_cols \<ge> 2 then
           [\<lparr>cand_id = 5, cand_name = ''scatter_plot'',
             reason = ''Correlation: '' @ hd numeric_cols @ '' vs '' @ numeric_cols ! 1,
             encoding = [(''x'', PStr (hd numeric_cols)), (''y'', PStr (numeric_cols ! 1))]\<rparr>]
         else [])
      @ (if numeric_cols \<noteq> [] then
           [\<lparr>cand_id = 10, cand_name = ''big_number'',
             reason = ''Total '' @ hd numeric_cols,
             encoding = [(''y'', PStr (hd numeric_cols))]\<rparr>]
         else []))"

definition generate_fallback_suggestions :: "string list \<Rightarrow> schema_profile option \<Rightarrow> suggestion list" where
  "generate_fallback_suggestions user_prompts schema =
     (case schema of
        None \<Rightarrow> map (\<lambda>prompt. \<lparr>user_prompt = prompt, chosen_charts = generic_charts\<rparr>) user_prompts
      | Some p \<Rightarrow>
          if columns p = [] then
            map (\<lambda>prompt. \<lparr>user_prompt = prompt, chosen_charts = generic_charts\<rparr>) user_prompts
          else
            map (\<lambda>prompt. \<lparr>user_prompt = prompt, chosen_charts = take 4 (rule_suggestions (columns p))\<rparr>)
              user_prompts)"

subsection \<open>The primary path\<close>

text \<open>
  \<open>ChartSuggester.suggest\<close> (main.py, lines 433-503). The completion service is outside
  the program; what the loop body sees of its answer to one prompt is an \<open>llm_reply\<close>:
  \<^item> \<open>Raised\<close>: the call, or anything else in the outer \<open>try\<close>, raised an exception that
    is not a \<open>KeyError\<close> or \<open>JSONDecodeError\<close> of the inner \<open>try\<close> (a network error, a
    rate limit, or a decoded value of the wrong shape, whose \<open>.get\<close> raises);
  \<^item> \<open>DecodeFailed\<close>: \<open>json.loads(cleaned)\<close> raised \<open>JSONDecodeError\<close>;
  \<^item> \<open>Decoded cs\<close>: \<open>json.loads(cleaned).get("chosen_charts", [])\<close> is the list \<open>cs\<close>
    of chart objects.
\<close>

datatype llm_reply = Raised | DecodeFailed | Decoded "candidate list"

definition encoding_get :: "candidate \<Rightarrow> string \<Rightarrow> pyval" where
  \<comment> \<open>\<open>chart.get("encoding", {}).get(role, "")\<close>\<close>
  "encoding_get chart role = (case map_of (encoding chart) role of None \<Rightarrow> PStr [] | Some v \<Rightarrow> v)"

definition in_columns :: "pyval \<Rightarrow> string list \<Rightarrow> bool" where
  \<comment> \<open>\<open>v in valid_columns\<close>, a set of strings: only a string can be a member.\<close>
  "in_columns v valid_columns = (case v of PStr s \<Rightarrow> s \<in> set valid_columns | _ \<Rightarrow> False)"

definition valid_references :: "string list \<Rightarrow> candidate \<Rightarrow> bool" where
  \<comment> \<open>Line 482: \<open>(not x_col or x_col in valid_columns) and (not y_col or y_col in valid_columns)\<close>\<close>
  "valid_references valid_columns chart =
     (let x_col = encoding_get chart ''x''; y_col = encoding_get chart ''y''
      in (\<not> truthy x_col \<or> in_columns x_col valid_columns)
       \<and> (\<not> truthy y_col \<or> in_columns y_col valid_columns))"

definition validate_charts :: "schema_profile \<Rightarrow> candidate list \<Rightarrow> candidate list" where
  \<comment> \<open>Lines 475-487.\<close>
  "validate_charts p chosen =
     (let validated_charts = filter (valid_references (column_names p)) chosen
      in if validated_charts \<noteq> [] then validated_charts else take 4 chosen)"

definition suggest_prompt :: "schema_profile \<Rightarrow> string \<Rightarrow> llm_reply \<Rightarrow> suggestion" where
  \<comment> \<open>The body of the loop over the prompts, lines 446-501. The fallback for one prompt is a
      list of one entry, so \<open>[0]\<close> never raises.\<close>
  "suggest_prompt p prompt reply =
     (case reply of
        Decoded chosen \<Rightarrow> \<lparr>user_prompt = prompt, chosen_charts = validate_charts p chosen\<rparr>
      | DecodeFailed \<Rightarrow>
          \<lparr>user_prompt = prompt,
           chosen_charts =
             (case generate_fallback_suggestions [prompt] (Some p) of
                [] \<Rightarrow> []
              | f # rest \<Rightarrow> chosen_charts f)\<rparr>
      | Raised \<Rightarrow>
          (case generate_fallback_suggestions [prompt] (Some p) of
             [] \<Rightarrow> \<lparr>user_prompt = prompt, chosen_charts = []\<rparr>
           | f # rest \<Rightarrow> f))"

definition suggest :: "(string \<times> llm_reply) list \<Rightarrow> schema_profile option \<Rightarrow> suggestion list" where
  \<comment> \<open>Each prompt comes with the service's answer to it.\<close>
  "suggest prompts schema =
     (case schema of
        None \<Rightarrow> generate_fallback_suggestions (map fst prompts) schema
      | Some p \<Rightarrow>
          if columns p = [] then generate_fallback_suggestions (map fst prompts) schema
          else map (\<lambda>(prompt, reply). suggest_prompt p prompt reply) prompts)"

section \<open>Query Execution Client\<close>

text \<open>
  \<open>execute_query_on_datalake\<close> (main.py, lines 172-210). The backend is outside the
  program. What the client sees of one HTTP exchange is an \<open>http_response\<close>:
  \<^item> \<open>HttpError m\<close>: the request or \<open>raise_for_status\<close> raised an \<open>httpx.HTTPError\<close>
    whose text is \<open>m\<close>;
  \<^item> \<open>Body b\<close>: the body decoded to the JSON object \<open>b\<close>;
  \<^item> \<open>BadBody m\<close>: decoding the body, or reading it as an object, raised an exception
    with text \<open>m\<close>, which is not an \<open>httpx.HTTPError\<close> and passes the handler of line 209.

  A \<open>backend_run\<close> is the backend's side of one execution: its answer to the \<open>POST\<close>
  and its answer to each status request, by the number of the attempt. The one-second
  sleeps are not modelled. The result is paired with the number of status requests made.
\<close>

datatype 'a http_response = HttpError string | Body 'a | BadBody string

record submit_body =
  jobId :: "pyval option"

record status_payload =
  status :: "pyval option"
  message :: "pyval option"
  rowCount :: "pyval option"
  resultData :: "row list option"

record backend_run =
  submit :: "submit_body http_response"
  polls :: "nat \<Rightarrow> status_payload http_response"

definition failure_message :: "(pyfloat \<Rightarrow> string) \<Rightarrow> status_payload \<Rightarrow> string" where
  \<comment> \<open>\<open>status_data.get('message', 'Unknown error')\<close>, as the f-string prints it.\<close>
  "failure_message frepr d = (case message d of None \<Rightarrow> ''Unknown error'' | Some m \<Rightarrow> py_str frepr m)"

fun poll_loop ::
  "(pyfloat \<Rightarrow> string) \<Rightarrow> (nat \<Rightarrow> status_payload http_response) \<Rightarrow> nat \<Rightarrow> nat
     \<Rightarrow> nat \<times> (py_error + status_payload)" where
  \<comment> \<open>Lines 189-207: \<open>attempt\<close> is the loop variable, the last argument the number of
      attempts left of the 60.\<close>
  "poll_loop frepr answers attempt 0 = (attempt, Inl (HTTPException 500 ''Query execution timeout''))"
| "poll_loop frepr answers attempt (Suc left) =
     (case answers attempt of
        HttpError m \<Rightarrow> (Suc attempt, Inl (HTTPException 500 (''Data-lakehouse error: '' @ m)))
      | BadBody m \<Rightarrow> (Suc attempt, Inl (OtherError m))
      | Body status_data \<Rightarrow>
          if status status_data = Some (PStr ''completed'') then (Suc attempt, Inr status_data)
          else if status status_data = Some (PStr ''failed'') then
            (Suc attempt, Inl (HTTPException 500 (''Query failed: '' @ failure_message frepr status_data)))
          else poll_loop frepr answers (Suc attempt) left)"

definition execute_query_on_datalake ::
  "(pyfloat \<Rightarrow> string) \<Rightarrow> backend_run \<Rightarrow> nat \<times> (py_error + status_payload)" where
  "execute_query_on_datalake frepr run =
     (case submit run of
        HttpError m \<Rightarrow> (0, Inl (HTTPException 500 (''Data-lakehouse error: '' @ m)))
      | BadBody m \<Rightarrow> (0, Inl (OtherError m))
      | Body result \<Rightarrow>
          (case jobId result of
             None \<Rightarrow> (0, Inl (HTTPException 500 ''No jobId returned from data-lakehouse''))
           | Some job_id \<Rightarrow>
               if \<not> truthy job_id
               then (0, Inl (HTTPException 500 ''No jobId returned from data-lakehouse''))
               else poll_loop frepr (polls run) 0 60))"


section \<open>Result Reshaper\<close>

text \<open>
  \<open>transform_to_chartjs_format\<close> (main.py, lines 214-296). \<open>resultData\<close> is absent
  (\<open>None\<close>) or a list; a row is a dictionary, kept as an association list in the order of
  its keys (which are distinct), or something else. \<open>row.get\<close> on a row that is not a
  dictionary raises \<open>AttributeError\<close>; the first row is checked with \<open>isinstance\<close>, the
  later ones are not.
\<close>

record dataset =
  label :: string
  data :: "pyval list"
  backgroundColor :: "string list"

record chartjs =
  labels :: "string list"
  datasets :: "dataset list"

definition colors :: "string list" where
  "colors = [''#BCFF3C'', ''#3CBCFF'', ''#FF3CBC'', ''#FFBC3C'',
             ''#3CFFBC'', ''#BC3CFF'', ''#FF6B6B'', ''#6BFFB8'']"

definition empty_chartjs :: chartjs where
  "empty_chartjs = \<lparr>labels = [], datasets = []\<rparr>"

definition is_number :: "pyval \<Rightarrow> bool" where
  \<comment> \<open>\<open>isinstance(val, (int, float))\<close>; a \<open>bool\<close> is an \<open>int\<close>.\<close>
  "is_number val = (case val of PBool b \<Rightarrow> True | PInt i \<Rightarrow> True | PFloat f \<Rightarrow> True | _ \<Rightarrow> False)"

definition float_of :: "pyval \<Rightarrow> pyfloat option" where
  \<comment> \<open>\<open>float(val)\<close>; \<open>None\<close> for the \<open>ValueError\<close> or \<open>TypeError\<close> it raises.\<close>
  "float_of val =
     (case val of
        PNone \<Rightarrow> None
      | PBool b \<Rightarrow> Some (Fin (if b then 1 else 0))
      | PInt i \<Rightarrow> Some (Fin (of_int i))
      | PFloat f \<Rightarrow> Some f
      | PStr t \<Rightarrow> py_float t)"

definition data_value :: "pyval \<Rightarrow> pyval" where
  \<comment> \<open>Lines 273-279.\<close>
  "data_value val =
     (if is_number val then val
      else if truthy val then (case float_of val of Some f \<Rightarrow> PFloat f | None \<Rightarrow> PInt 0)
      else PInt 0)"

definition dict_get :: "(string \<times> pyval) list \<Rightarrow> string \<Rightarrow> pyval \<Rightarrow> pyval" where
  \<comment> \<open>\<open>d.get(key, default)\<close>\<close>
  "dict_get d key dflt = (case map_of d key of None \<Rightarrow> dflt | Some v \<Rightarrow> v)"

fun row_dicts :: "row list \<Rightarrow> py_error + (string \<times> pyval) list list" where
  \<comment> \<open>The rows as dictionaries, or the \<open>AttributeError\<close> of the first row whose \<open>.get\<close>
      fails.\<close>
  "row_dicts [] = Inr []"
| "row_dicts (RowOther ty # rows) =
     Inl (AttributeError ([CHR 0x27] @ ty @ [CHR 0x27] @ '' object has no attribute '' @ [CHR 0x27] @ ''get'' @ [CHR 0x27]))"
| "row_dicts (RowDict d # rows) =
     (case row_dicts rows of Inl e \<Rightarrow> Inl e | Inr ds \<Rightarrow> Inr (d # ds))"

definition make_dataset :: "(string \<times> pyval) list list \<Rightarrow> nat \<times> string \<Rightarrow> dataset" where
  \<comment> \<open>The body of the loop over \<open>enumerate(columns[1:], start=0)\<close>, lines 269-288.\<close>
  "make_dataset ds ic =
     (let data_values = map (\<lambda>d. data_value (dict_get d (snd ic) (PInt 0))) ds in
      \<lparr>label = snd ic,
       data = data_values,
       backgroundColor = replicate (length data_values) (colors ! (fst ic mod length colors))\<rparr>)"

definition transform_to_chartjs_format ::
  "(pyfloat \<Rightarrow> string) \<Rightarrow> status_payload \<Rightarrow> py_error + chartjs" where
  "transform_to_chartjs_format frepr execution_result =
     (let result_data = (case resultData execution_result of None \<Rightarrow> [] | Some rows \<Rightarrow> rows) in
      case result_data of
        [] \<Rightarrow> Inr empty_chartjs
      | RowOther ty # rest \<Rightarrow> Inr empty_chartjs
      | RowDict first # rest \<Rightarrow>
          (case map fst first of
             [] \<Rightarrow> Inr empty_chartjs
           | label_col # data_cols \<Rightarrow>
               (case row_dicts result_data of
                  Inl e \<Rightarrow> Inl e
                | Inr ds \<Rightarrow>
                    Inr \<lparr>labels = map (\<lambda>d. py_str frepr (dict_get d label_col (PStr []))) ds,
                         datasets = map (make_dataset ds) (enumerate 0 data_cols)\<rparr>)))"

section \<open>Pipeline Orchestrator\<close>

text \<open>
  The two operations that execute chart queries: \<open>api_build_queries\<close> (main.py, lines
  810-859) and step 5 of \<open>api_execute_prompt\<close> (lines 948-1002). A chart is the
  dictionary the query builder returns for it; \<open>chart_id\<close>, \<open>query\<close> and \<open>chart_data\<close>
  are \<open>None\<close> when the key is absent, and \<open>error\<close> tells an absent key (\<open>Unset\<close>) from
  the value \<open>None\<close> (\<open>ErrorNone\<close>). The backend decides, for each query it is sent, how
  the execution runs (\<open>backend_run\<close>). Each operation is paired with the list of the
  queries it submitted, in order.
\<close>

record select_item =
  column :: string
  aggregation :: "string option"
  as_name :: string

record query_spec =
  source :: string
  select :: "select_item list"
  filters :: "(string \<times> string \<times> pyval) list"
  groupBy :: "string list"
  orderBy :: "(string \<times> string) list"
  limit :: "int option"

datatype error_field = Unset | ErrorNone | ErrorText string

record chart =
  chart_prompt :: string
  chart_id :: "pyval option"
  chart_type :: string
  query :: "query_spec option"
  chart_encoding :: "(string \<times> pyval) list"
  chart_data :: "chartjs option"
  error :: error_field

record build_result =
  intent :: string
  charts :: "chart list"

record dataset_metadata =
  projectId :: "string option"
  tableName :: "string option"
  metadata_columns :: "column_data list"

definition str_error :: "py_error \<Rightarrow> string" where
  \<comment> \<open>\<open>str(e)\<close>\<close>
  "str_error e =
     (case e of
        ZeroDivisionError \<Rightarrow> ''division by zero''
      | KeyError k \<Rightarrow> [CHR 0x27] @ k @ [CHR 0x27]
      | AttributeError m \<Rightarrow> m
      | HTTPException code detail \<Rightarrow> str_nat code @ '': '' @ detail
      | OtherError m \<Rightarrow> m)"

subsection \<open>The query builder's reply\<close>

text \<open>
  \<open>ChartValidatorAndQueryBuilder.build_final_charts\<close> (lines 677-700). What it sees of
  the completion service's answer: the call raised an exception with text \<open>m\<close>;
  \<open>json.loads\<close> raised \<open>JSONDecodeError\<close>; or the text decoded to a result.
\<close>

datatype builder_reply = BuilderRaised string | BuilderDecodeFailed | BuilderDecoded build_result

definition build_final_charts :: "builder_reply \<Rightarrow> py_error + build_result" where
  "build_final_charts reply =
     (case reply of
        BuilderDecoded r \<Rightarrow> Inr r
      | BuilderDecodeFailed \<Rightarrow> Inr \<lparr>intent = ''visualization'', charts = []\<rparr>
      | BuilderRaised m \<Rightarrow> Inl (HTTPException 500 (''Error in Query Builder: '' @ m)))"

subsection \<open>The build-queries operation\<close>

definition failed_chart :: "chart \<Rightarrow> py_error \<Rightarrow> chart" where
  \<comment> \<open>Lines 849-854: the two handlers of \<open>api_build_queries\<close>. They set \<open>error\<close> only.\<close>
  "failed_chart c e =
     (case e of
        HTTPException code detail \<Rightarrow> c\<lparr>error := ErrorText detail\<rparr>
      | _ \<Rightarrow> c\<lparr>error := ErrorText (''Execution error: '' @ str_error e)\<rparr>)"

definition build_queries_chart ::
  "(pyfloat \<Rightarrow> string) \<Rightarrow> (query_spec \<Rightarrow> backend_run) \<Rightarrow> chart
     \<Rightarrow> query_spec list \<times> (py_error + chart)" where
  \<comment> \<open>The body of the loop, lines 839-854. The \<open>print\<close>s read \<open>chart['chart_id']\<close>: when the
      key is absent the one in the \<open>try\<close> raises \<open>KeyError\<close> before anything is submitted,
      the handler's own \<open>print\<close> raises it again, and the operation ends with it.\<close>
  "build_queries_chart frepr backend c =
     (case chart_id c of
        None \<Rightarrow> ([], Inl (KeyError ''chart_id''))
      | Some cid \<Rightarrow>
          (case query c of
             None \<Rightarrow> ([], Inr (failed_chart c (KeyError ''query'')))
           | Some q \<Rightarrow>
               (let query_spec = q\<lparr>source := ''elm4r7a.sales''\<rparr>;
                    c1 = c\<lparr>query := Some query_spec\<rparr>
                in case snd (execute_query_on_datalake frepr (backend query_spec)) of
                     Inl e \<Rightarrow> ([query_spec], Inr (failed_chart c1 e))
                   | Inr execution_result \<Rightarrow>
                       (case transform_to_chartjs_format frepr execution_result of
                          Inl e \<Rightarrow> ([query_spec], Inr (failed_chart c1 e))
                        | Inr d \<Rightarrow>
                            ([query_spec], Inr (c1\<lparr>chart_data := Some d, error := ErrorNone\<rparr>))))))"

fun build_queries_loop ::
  "(pyfloat \<Rightarrow> string) \<Rightarrow> (query_spec \<Rightarrow> backend_run) \<Rightarrow> chart list
     \<Rightarrow> query_spec list \<times> (py_error + chart list)" where
  "build_queries_loop frepr backend [] = ([], Inr [])"
| "build_queries_loop frepr backend (c # cs) =
     (case build_queries_chart frepr backend c of
        (sent, Inl e) \<Rightarrow> (sent, Inl e)
      | (sent, Inr c') \<Rightarrow>
          (case build_queries_loop frepr backend cs of
             (sent', Inl e) \<Rightarrow> (sent @ sent', Inl e)
           | (sent', Inr cs') \<Rightarrow> (sent @ sent', Inr (c' # cs'))))"

definition api_build_queries ::
  "(pyfloat \<Rightarrow> string) \<Rightarrow> (dataset_metadata \<Rightarrow> suggestion list \<Rightarrow> builder_reply)
     \<Rightarrow> (query_spec \<Rightarrow> backend_run) \<Rightarrow> dataset_metadata \<Rightarrow> suggestion list
     \<Rightarrow> query_spec list \<times> (py_error + build_result)" where
  \<comment> \<open>\<open>llm\<close> is the completion service's answer to the builder's request, which carries
      the metadata and the suggestions.\<close>
  "api_build_queries frepr llm backend metadata suggestions =
     (case build_final_charts (llm metadata suggestions) of
        Inl e \<Rightarrow> ([], Inl e)
      | Inr result \<Rightarrow>
          (case build_queries_loop frepr backend (charts result) of
             (sent, Inl e) \<Rightarrow> (sent, Inl e)
           | (sent, Inr cs) \<Rightarrow> (sent, Inr (result\<lparr>charts := cs\<rparr>))))"

subsection \<open>Step 5 of the execute-prompt operation\<close>

definition failed_prompt_chart :: "chart \<Rightarrow> py_error \<Rightarrow> chart" where
  \<comment> \<open>Lines 989-998: the two handlers of \<open>api_execute_prompt\<close>. They set \<open>error\<close> and
      default \<open>data\<close>.\<close>
  "failed_prompt_chart c e =
     (case e of
        HTTPException code detail \<Rightarrow>
          c\<lparr>error := ErrorText detail, chart_data := Some empty_chartjs\<rparr>
      | _ \<Rightarrow>
          c\<lparr>error := ErrorText (''Execution error: '' @ str_error e),
            chart_data := Some empty_chartjs\<rparr>)"

definition repair_select :: "string list \<Rightarrow> query_spec \<Rightarrow> query_spec option" where
  \<comment> \<open>Lines 961-975: when a selected column is not in the schema, keep the items whose
      column is; \<open>None\<close> is the \<open>continue\<close> taken when none is left. A select item
      without a column has the empty name here.\<close>
  "repair_select valid_column_names q =
     (let query_columns = filter (\<lambda>col. col \<noteq> []) (map column (select q));
          invalid_cols = filter (\<lambda>col. col \<notin> set valid_column_names) query_columns
      in if invalid_cols \<noteq> [] then
           (let kept = filter (\<lambda>sel. column sel \<in> set valid_column_names) (select q)
            in if kept = [] then None else Some (q\<lparr>select := kept\<rparr>))
         else Some q)"

definition execute_prompt_chart ::
  "(pyfloat \<Rightarrow> string) \<Rightarrow> (query_spec \<Rightarrow> backend_run) \<Rightarrow> string list \<Rightarrow> string \<Rightarrow> string
     \<Rightarrow> chart \<Rightarrow> query_spec list \<times> chart list" where
  \<comment> \<open>The body of the loop, lines 953-998: the queries submitted and what is appended to
      \<open>valid_charts\<close> (nothing after a \<open>continue\<close>).\<close>
  "execute_prompt_chart frepr backend valid_column_names project_id table_name c =
     (case query c of
        None \<Rightarrow> ([], [])
      | Some q \<Rightarrow>
          (case repair_select valid_column_names q of
             None \<Rightarrow> ([], [])
           | Some repaired \<Rightarrow>
               (let query_spec = repaired\<lparr>source := project_id @ ''.'' @ table_name\<rparr>;
                    c1 = c\<lparr>query := Some query_spec\<rparr>
                in case snd (execute_query_on_datalake frepr (backend query_spec)) of
                     Inl e \<Rightarrow> ([query_spec], [failed_prompt_chart c1 e])
                   | Inr execution_result \<Rightarrow>
                       (case transform_to_chartjs_format frepr execution_result of
                          Inl e \<Rightarrow> ([query_spec], [failed_prompt_chart c1 e])
                        | Inr d \<Rightarrow> ([query_spec], [c1\<lparr>chart_data := Some d, error := ErrorNone\<rparr>])))))"

fun execute_prompt_loop ::
  "(pyfloat \<Rightarrow> string) \<Rightarrow> (query_spec \<Rightarrow> backend_run) \<Rightarrow> string list \<Rightarrow> string \<Rightarrow> string
     \<Rightarrow> chart list \<Rightarrow> query_spec list \<times> chart list" where
  "execute_prompt_loop frepr backend valid_column_names project_id table_name [] = ([], [])"
| "execute_prompt_loop frepr backend valid_column_names project_id table_name (c # cs) =
     (let (sent, kept) = execute_prompt_chart frepr backend valid_column_names project_id table_name c;
          (sent', kept') = execute_prompt_loop frepr backend valid_column_names project_id table_name cs
      in (sent @ sent', kept @ kept'))"

section \<open>Example inputs\<close>

definition region_sales_profile :: schema_profile where
  \<comment> \<open>The profile of the spec's Scenario E: \<open>column_names = {"Region", "Sales"}\<close>.\<close>
  "region_sales_profile =
     \<lparr>columns =
        [\<lparr>col_name = ''Region'', col_type = ''category'', samples = [], col_stats = None\<rparr>,
         \<lparr>col_name = ''Sales'', col_type = ''numeric'', samples = [], col_stats = None\<rparr>],
      row_count = 0,
      column_names = [''Region'', ''Sales''],
      summary = ''2 columns: 1 numeric (Sales), 1 category (Region)''\<rparr>"


definition sales_chart :: "int \<Rightarrow> string \<Rightarrow> candidate" where
  "sales_chart i kind =
     \<lparr>cand_id = i, cand_name = kind, reason = ''Sales by region'',
      encoding = [(''x'', PStr ''Region''), (''y'', PStr ''Sales'')]\<rparr>"

definition five_sales_charts :: "candidate list" where
  "five_sales_charts =
     [sales_chart 1 ''bar_chart'', sales_chart 6 ''pie_chart'', sales_chart 9 ''line_chart'',
      sales_chart 2 ''area_chart'', sales_chart 3 ''column_chart'']"



definition region_sales_result :: status_payload where
  \<comment> \<open>The payload of the spec's Scenario B.\<close>
  "region_sales_result =
     \<lparr>status = Some (PStr ''completed''), message = None, rowCount = Some (PInt 2),
      resultData =
        Some [RowDict [(''Region'', PStr ''Asia''), (''Sales'', PInt 100)],
              RowDict [(''Region'', PStr ''EU''), (''Sales'', PInt 50)]]\<rparr>"


definition job_accepted :: "submit_body http_response" where
  "job_accepted = Body \<lparr>jobId = Some (PStr ''job-1'')\<rparr>"

definition sales_query :: query_spec where
  "sales_query =
     \<lparr>source = ''uploaded_file'',
      select = [\<lparr>column = ''Region'', aggregation = None, as_name = ''Region''\<rparr>,
                \<lparr>column = ''Sales'', aggregation = Some ''sum'', as_name = ''Sales''\<rparr>],
      filters = [], groupBy = [''Region''], orderBy = [(''Sales'', ''desc'')], limit = None\<rparr>"

definition bar_chart :: chart where
  "bar_chart =
     \<lparr>chart_prompt = ''analyze sales'', chart_id = Some (PInt 1), chart_type = ''bar_chart'',
      query = Some sales_query,
      chart_encoding = [(''x'', PStr ''Region''), (''y'', PStr ''Sales'')],
      chart_data = None, error = Unset\<rparr>"

definition pie_chart :: chart where
  "pie_chart = bar_chart\<lparr>chart_id := Some (PInt 6), chart_type := ''pie_chart'',
                           query := Some (sales_query\<lparr>limit := Some 5\<rparr>)\<rparr>"

definition failing :: status_payload where
  "failing = \<lparr>status = Some (PStr ''failed''), message = Some (PStr ''table not found''),
               rowCount = None, resultData = None\<rparr>"

definition flaky_backend :: "query_spec \<Rightarrow> backend_run" where
  \<comment> \<open>A backend on which the query without a limit fails and every other query completes
      with the rows of Scenario B.\<close>
  "flaky_backend q =
     \<lparr>submit = job_accepted,
      polls = (\<lambda>k. if limit q = None then Body failing else Body region_sales_result)\<rparr>"

definition shop_metadata :: dataset_metadata where
  "shop_metadata = \<lparr>projectId = Some ''shop'', tableName = Some ''orders'', metadata_columns = []\<rparr>"

definition two_charts_llm :: "dataset_metadata \<Rightarrow> suggestion list \<Rightarrow> builder_reply" where
  "two_charts_llm metadata suggestions =
     BuilderDecoded \<lparr>intent = ''visualization'', charts = [bar_chart, pie_chart]\<rparr>"

section \<open>Properties of Type Inference\<close>

lemma truediv_clamped: "\<exists>q. truediv a (max b 1) = Inr q"
  by (simp add: truediv_def)

lemma infer_column_type_total: "\<exists>tag. infer_column_type frepr vals = Inr tag"
proof -
  obtain q where q:
    "truediv (length (remdups (map (py_str frepr) (filter (\<lambda>v. v \<noteq> PNone) vals))))
       (max (length (map (py_str frepr) (filter (\<lambda>v. v \<noteq> PNone) vals))) 1) = Inr q"
    using truediv_clamped by blast
  show ?thesis
    unfolding infer_column_type_def Let_def using q
    by (simp split: option.split)
qed

text \<open>
  Claim C10. Type Inference never raises: on every list it returns a tag. On a non-empty
  list whose values are all \<open>None\<close> no string survives the filter, the divisor
  \<open>max(len(str_values), 1)\<close> is 1 rather than 0, the ratio is 0 and the tag is
  \<open>category\<close> (not \<open>unknown\<close>, which only the empty list gets).
\<close>

theorem infer_column_type_all_None:
  assumes "vals \<noteq> []" and "list_all (\<lambda>v. v = PNone) vals"
  shows "infer_column_type frepr vals = Inr ''category''
       \<and> max (length (filter (\<lambda>v. v \<noteq> PNone) vals)) 1 = 1
       \<and> (\<forall>ws. \<exists>tag. infer_column_type frepr ws = Inr tag)"
proof -
  have none: "filter (\<lambda>v. v \<noteq> PNone) vals = []"
    using assms(2) by (induction vals) auto
  have "infer_column_type frepr vals = Inr ''category''"
    using assms(1) by (simp add: infer_column_type_def none sample_rules_def truediv_def)
  moreover have "max (length (filter (\<lambda>v. v \<noteq> PNone) vals)) 1 = 1"
    by (simp add: none)
  ultimately show ?thesis
    using infer_column_type_total by blast
qed

theorem infer_column_type_all_None_witness:
  "[PNone, PNone, PNone] \<noteq> [] \<and> list_all (\<lambda>v. v = PNone) [PNone, PNone, PNone]
   \<and> infer_column_type (\<lambda>f. ''0.0'') [PNone, PNone, PNone] = Inr ''category''"
  using infer_column_type_all_None [of "[PNone, PNone, PNone]" "\<lambda>f. ''0.0''"] by simp


lemma infer_column_type_first_gate:
  assumes "filter (\<lambda>v. v \<noteq> PNone) vals = v # rest"
    and "py_float (remove_char CHR '','' (py_str frepr v)) = None"
  shows "infer_column_type frepr vals \<noteq> Inr ''numeric''"
proof -
  have "sample_rules (map (py_str frepr) (v # rest)) \<noteq> Some ''numeric''"
    using assms(2) by (simp add: sample_rules_def numeric_rule_def)
  then show ?thesis
    by (auto simp: infer_column_type_def assms(1) Let_def split: option.splits sum.splits if_splits)
qed



section \<open>Properties of JSON Extraction\<close>

lemma rstrip_keeps_head:
  assumes "\<not> is_space a"
  shows "rstrip (a # t) \<noteq> [] \<and> hd (rstrip (a # t)) = a"
proof -
  have "dropWhile is_space (rev t @ [a]) =
          (if \<forall>x\<in>set (rev t). is_space x then [a] else dropWhile is_space (rev t) @ [a])"
    using assms by (simp add: dropWhile_append)
  then show ?thesis
    by (cases "\<forall>x\<in>set (rev t). is_space x") (simp_all add: rstrip_def)
qed

lemma lstrip_fixed: "lstrip (strip s) = strip s"
proof (cases "lstrip s")
  case Nil
  then have "strip s = []" by (simp add: strip_def rstrip_def)
  then show ?thesis by (simp add: lstrip_def)
next
  case (Cons a t)
  then have "\<not> is_space a"
    unfolding lstrip_def by (metis hd_dropWhile list.sel(1) list.distinct(1))
  then have "rstrip (a # t) \<noteq> [] \<and> \<not> is_space (hd (rstrip (a # t)))"
    using rstrip_keeps_head by simp
  then have "dropWhile is_space (rstrip (a # t)) = rstrip (a # t)"
    by (simp add: dropWhile_eq_self_iff)
  then show ?thesis
    using Cons by (simp add: strip_def lstrip_def)
qed

lemma rstrip_idem: "rstrip (rstrip s) = rstrip s"
  by (simp add: rstrip_def)

lemma strip_idem: "strip (strip s) = strip s"
proof -
  have "strip (strip s) = rstrip (lstrip (strip s))"
    by (simp add: strip_def)
  also have "\<dots> = rstrip (strip s)"
    by (simp add: lstrip_fixed)
  also have "\<dots> = strip s"
    by (simp add: strip_def rstrip_idem)
  finally show ?thesis .
qed

lemma strip_strip_artifacts: "strip (strip_artifacts s) = strip_artifacts s"
  by (simp add: strip_artifacts_def strip_idem)

text \<open>
  Claim C5, as the spec states it, fails: a text that is not empty and holds neither
  \<open>{\<close> nor \<open>[\<close> gives \<open>{}\<close> (line 337-338), not the stripped text.
\<close>

theorem clean_llm_json_counterexample:
  "''no charts apply'' \<noteq> [] \<and> strip ''no charts apply'' = ''no charts apply''
   \<and> clean_llm_json (Some ''no charts apply'') = ''{}''"
  by code_simp

text \<open>
  Claim C5, amended. JSON Extraction returns \<open>{}\<close> when its input is absent or empty,
  and when the text left after the sentinel tags, the \<open>[OUT]\<close> wrapper and the code
  fences are removed holds neither \<open>{\<close> nor \<open>[\<close>. When that text holds an opening
  bracket but the last closing bracket of its kind is missing or does not come after it,
  the result is that text, unsliced.
\<close>

theorem clean_llm_json_default:
  "clean_llm_json None = ''{}''
   \<and> clean_llm_json (Some []) = ''{}''
   \<and> (s \<noteq> [] \<and> start_index (strip_artifacts s) = None \<longrightarrow> clean_llm_json (Some s) = ''{}'')
   \<and> (s \<noteq> [] \<and> start_index (strip_artifacts s) = Some i
        \<and> (\<forall>j. end_index (strip_artifacts s) i = Some j \<longrightarrow> j \<le> i)
        \<longrightarrow> clean_llm_json (Some s) = strip_artifacts s)"
  by (auto simp: clean_llm_json_def bracket_span_def strip_strip_artifacts split: option.splits)

theorem clean_llm_json_default_witness:
  "clean_llm_json (Some ''hello'') = ''{}'' \<and> clean_llm_json (Some '' }{abc '') = ''}{abc''"
proof -
  have a: "''hello'' \<noteq> [] \<and> start_index (strip_artifacts ''hello'') = None"
    by code_simp
  have e: "end_index (strip_artifacts '' }{abc '') 1 = Some 0"
    by code_simp
  have b0: "'' }{abc '' \<noteq> [] \<and> start_index (strip_artifacts '' }{abc '') = Some 1"
    by code_simp
  have b: "'' }{abc '' \<noteq> [] \<and> start_index (strip_artifacts '' }{abc '') = Some 1
        \<and> (\<forall>j. end_index (strip_artifacts '' }{abc '') 1 = Some j \<longrightarrow> j \<le> 1)"
    using b0 e by simp
  have c: "strip_artifacts '' }{abc '' = ''}{abc''"
    by code_simp
  show ?thesis
    using clean_llm_json_default [of "''hello''" 0] clean_llm_json_default [of "'' }{abc ''" 1] a b c
    by simp
qed

section \<open>Properties of the Chart Candidate Generator\<close>

lemma fallback_at_most_four:
  "list_all (\<lambda>s. length (chosen_charts s) \<le> 4) (generate_fallback_suggestions user_prompts schema)"
  by (auto simp: generate_fallback_suggestions_def generic_charts_def list_all_iff split: option.splits)

lemma fallback_one_per_prompt:
  "length (generate_fallback_suggestions user_prompts schema) = length user_prompts"
  by (simp add: generate_fallback_suggestions_def split: option.splits)


lemma validate_charts_none_survive:
  assumes "\<not> list_ex (valid_references (column_names p)) chosen"
  shows "validate_charts p chosen = take 4 chosen"
proof -
  have "filter (valid_references (column_names p)) chosen = []"
    using assms by (auto simp: list_ex_iff filter_empty_conv)
  then show ?thesis
    by (simp add: validate_charts_def)
qed





text \<open>
  Claim C2 on the code. The fallback path truncates to four (\<open>suggestions[:4]\<close>, lemma
  \<open>fallback_at_most_four\<close>), and so does the primary path when no candidate passes the
  check (\<open>chosen_charts[:4]\<close>, lemma \<open>validate_charts_none_survive\<close>). The validated list
  is not truncated: a reply of five candidates that all pass the check is emitted whole.
\<close>

theorem suggest_five_validated:
  "suggest [(''analyze sales'', Decoded five_sales_charts)] (Some region_sales_profile)
     = [\<lparr>user_prompt = ''analyze sales'', chosen_charts = five_sales_charts\<rparr>]
   \<and> length five_sales_charts = 5
   \<and> list_all (valid_references (column_names region_sales_profile)) five_sales_charts"
  by (simp add: suggest_def suggest_prompt_def validate_charts_def valid_references_def
      in_columns_def encoding_get_def five_sales_charts_def sales_chart_def region_sales_profile_def)

section \<open>Properties of the Schema Profiler\<close>










section \<open>Properties of the Query Execution Client\<close>







section \<open>Properties of the Result Reshaper\<close>






section \<open>Properties of the Pipeline Orchestrator\<close>

lemma flaky_build_run:
  "api_build_queries (\<lambda>f. []) two_charts_llm flaky_backend shop_metadata []
     = ([sales_query\<lparr>source := ''elm4r7a.sales''\<rparr>,
         sales_query\<lparr>limit := Some 5, source := ''elm4r7a.sales''\<rparr>],
        Inr \<lparr>intent = ''visualization'',
             charts =
               [bar_chart\<lparr>query := Some (sales_query\<lparr>source := ''elm4r7a.sales''\<rparr>),
                           error := ErrorText ''Query failed: table not found''\<rparr>,
                pie_chart\<lparr>query := Some (sales_query\<lparr>limit := Some 5, source := ''elm4r7a.sales''\<rparr>),
                           chart_data :=
                             Some \<lparr>labels = [''Asia'', ''EU''],
                                    datasets = [\<lparr>label = ''Sales'', data = [PInt 100, PInt 50],
                                                 backgroundColor = [''#BCFF3C'', ''#BCFF3C'']\<rparr>]\<rparr>,
                           error := ErrorNone\<rparr>]\<rparr>)"
  by code_simp

lemma flaky_prompt_run:
  "execute_prompt_loop (\<lambda>f. []) flaky_backend [''Region'', ''Sales''] ''shop'' ''orders''
       [bar_chart, pie_chart]
     = ([sales_query\<lparr>source := ''shop.orders''\<rparr>,
         sales_query\<lparr>limit := Some 5, source := ''shop.orders''\<rparr>],
        [bar_chart\<lparr>query := Some (sales_query\<lparr>source := ''shop.orders''\<rparr>),
                    error := ErrorText ''Query failed: table not found'',
                    chart_data := Some \<lparr>labels = [], datasets = []\<rparr>\<rparr>,
         pie_chart\<lparr>query := Some (sales_query\<lparr>limit := Some 5, source := ''shop.orders''\<rparr>),
                    chart_data :=
                      Some \<lparr>labels = [''Asia'', ''EU''],
                             datasets = [\<lparr>label = ''Sales'', data = [PInt 100, PInt 50],
                                          backgroundColor = [''#BCFF3C'', ''#BCFF3C'']\<rparr>]\<rparr>,
                    error := ErrorNone\<rparr>])"
  by code_simp

lemma build_queries_chart_failure:
  assumes "chart_id c = Some cid" and "query c = Some q"
    and "snd (execute_query_on_datalake frepr (backend (q\<lparr>source := ''elm4r7a.sales''\<rparr>)))
           = Inl (HTTPException code detail)"
  shows "snd (build_queries_chart frepr backend c)
           = Inr (c\<lparr>query := Some (q\<lparr>source := ''elm4r7a.sales''\<rparr>), error := ErrorText detail\<rparr>)"
  using assms by (simp add: build_queries_chart_def failed_chart_def Let_def)

lemma execute_prompt_chart_failure:
  assumes "query c = Some q" and "repair_select valid_column_names q = Some repaired"
    and "snd (execute_query_on_datalake frepr
                (backend (repaired\<lparr>source := project_id @ ''.'' @ table_name\<rparr>)))
           = Inl (HTTPException code detail)"
  shows "snd (execute_prompt_chart frepr backend valid_column_names project_id table_name c)
           = [c\<lparr>query := Some (repaired\<lparr>source := project_id @ ''.'' @ table_name\<rparr>),
                error := ErrorText detail, chart_data := Some empty_chartjs\<rparr>]"
  using assms by (simp add: execute_prompt_chart_def failed_prompt_chart_def Let_def)

text \<open>
  Claim C6 on the code. Both operations attach the failure message to the failing chart
  and go on to the next chart. Step 5 of \<open>api_execute_prompt\<close> also sets \<open>data\<close> to empty
  labels and datasets (lemma \<open>execute_prompt_chart_failure\<close>); the handlers of
  \<open>api_build_queries\<close> do not (lemma \<open>build_queries_chart_failure\<close>). On a batch of two
  charts of which the backend fails the first, \<open>api_build_queries\<close> returns the first
  chart with its \<open>error\<close> set and no \<open>data\<close> key, where step 5 of \<open>api_execute_prompt\<close>
  returns it with empty \<open>data\<close>.
\<close>

theorem api_build_queries_failed_chart_without_data:
  "map error (case snd (api_build_queries (\<lambda>f. []) two_charts_llm flaky_backend shop_metadata []) of
                Inl e \<Rightarrow> [] | Inr result \<Rightarrow> charts result)
     = [ErrorText ''Query failed: table not found'', ErrorNone]
   \<and> map chart_data (case snd (api_build_queries (\<lambda>f. []) two_charts_llm flaky_backend shop_metadata []) of
                Inl e \<Rightarrow> [] | Inr result \<Rightarrow> charts result)
     = [None,
        Some \<lparr>labels = [''Asia'', ''EU''],
               datasets = [\<lparr>label = ''Sales'', data = [PInt 100, PInt 50],
                            backgroundColor = [''#BCFF3C'', ''#BCFF3C'']\<rparr>]\<rparr>]
   \<and> map chart_data (snd (execute_prompt_loop (\<lambda>f. []) flaky_backend [''Region'', ''Sales'']
                              ''shop'' ''orders'' [bar_chart, pie_chart]))
     = [Some \<lparr>labels = [], datasets = []\<rparr>,
        Some \<lparr>labels = [''Asia'', ''EU''],
               datasets = [\<lparr>label = ''Sales'', data = [PInt 100, PInt 50],
                            backgroundColor = [''#BCFF3C'', ''#BCFF3C'']\<rparr>]\<rparr>]"
  by (simp only: flaky_build_run flaky_prompt_run) (simp add: bar_chart_def pie_chart_def)

lemma build_queries_chart_source:
  "\<forall>q \<in> set (fst (build_queries_chart frepr backend c)). source q = ''elm4r7a.sales''"
  by (auto simp: build_queries_chart_def Let_def split: option.splits sum.splits)

lemma build_queries_loop_source:
  "\<forall>q \<in> set (fst (build_queries_loop frepr backend cs)). source q = ''elm4r7a.sales''"
proof (induction cs)
  case Nil
  then show ?case by simp
next
  case (Cons c cs)
  obtain sent r where c: "build_queries_chart frepr backend c = (sent, r)"
    by (cases "build_queries_chart frepr backend c")
  obtain sent' r' where cs: "build_queries_loop frepr backend cs = (sent', r')"
    by (cases "build_queries_loop frepr backend cs")
  have "\<forall>q \<in> set sent. source q = ''elm4r7a.sales''"
    using build_queries_chart_source [of frepr backend c] by (simp add: c)
  moreover have "\<forall>q \<in> set sent'. source q = ''elm4r7a.sales''"
    using Cons.IH by (simp add: cs)
  ultimately show ?case
    by (auto simp: c cs split: sum.splits)
qed

text \<open>
  Claim C7. Whatever the request's \<open>dataset_metadata\<close> (and whatever source the builder
  wrote into a chart's query), every query that \<open>api_build_queries\<close> submits to the
  backend has the source \<open>elm4r7a.sales\<close>.
\<close>

theorem api_build_queries_source:
  "\<forall>q \<in> set (fst (api_build_queries frepr llm backend metadata suggestions)).
     source q = ''elm4r7a.sales''"
proof (cases "build_final_charts (llm metadata suggestions)")
  case (Inl e)
  then show ?thesis by (simp add: api_build_queries_def)
next
  case (Inr result)
  obtain sent r where l: "build_queries_loop frepr backend (charts result) = (sent, r)"
    by (cases "build_queries_loop frepr backend (charts result)")
  have "\<forall>q \<in> set sent. source q = ''elm4r7a.sales''"
    using build_queries_loop_source [of frepr backend "charts result"] by (simp add: l)
  then show ?thesis
    by (auto simp: api_build_queries_def Inr l split: sum.splits)
qed

theorem api_build_queries_source_witness:
  "projectId shop_metadata = Some ''shop'' \<and> tableName shop_metadata = Some ''orders''
   \<and> length (fst (api_build_queries (\<lambda>f. []) two_charts_llm flaky_backend shop_metadata [])) = 2
   \<and> source (hd (fst (api_build_queries (\<lambda>f. []) two_charts_llm flaky_backend shop_metadata [])))
       = ''elm4r7a.sales''"
proof -
  have two: "length (fst (api_build_queries (\<lambda>f. []) two_charts_llm flaky_backend shop_metadata [])) = 2"
    by (simp add: flaky_build_run)
  then have "hd (fst (api_build_queries (\<lambda>f. []) two_charts_llm flaky_backend shop_metadata []))
               \<in> set (fst (api_build_queries (\<lambda>f. []) two_charts_llm flaky_backend shop_metadata []))"
    by (intro hd_in_set) auto
  then show ?thesis
    using api_build_queries_source [of "\<lambda>f. []" two_charts_llm flaky_backend shop_metadata "[]"] two
    by (simp add: shop_metadata_def)
qed

end
